theory Spec2Isabelle
  imports Main "HOL-Library.Word"
begin

section \<open>Data model\<close>

text \<open>
  Every number in the controllers is a C++ \<^verbatim>\<open>int\<close>. On the V5 brain (32-bit ARM) and
  on the hosts that run the unit tests this is a 32-bit two's complement integer, modelled
  as a 32-bit word: \<open>+\<close> and \<open>-\<close> wrap around, \<open>sint\<close> reads the signed value, and
  \<open><s\<close> is the signed comparison of the source's \<^verbatim>\<open><\<close> and \<^verbatim>\<open>>\<close>.
\<close>

type_synonym cint = "32 word"

text \<open>
  \<^verbatim>\<open>enum MotorState { STOP = 0, FORWARD = 1, REVERSE = -1 }\<close>, declared with the same
  enumerators by both \<^verbatim>\<open>IntakeController\<close> and \<^verbatim>\<open>RampController\<close>.
\<close>

datatype MotorState = STOP | FORWARD | REVERSE

text \<open>\<^verbatim>\<open>enum HeightPosition { LOW = 0, HIGH = 1 }\<close> of \<^verbatim>\<open>PneumaticController\<close>.\<close>

datatype HeightPosition = LOW | HIGH

section \<open>DriveTrain\<close>

text \<open>
  \<^verbatim>\<open>int DriveTrain::clamp(int value, int min, int max)\<close>: two early returns, the test
  against the lower bound first.
\<close>

definition clamp :: "cint \<Rightarrow> cint \<Rightarrow> cint \<Rightarrow> cint" where
  "clamp v lo hi = (if v <s lo then lo else if hi <s v then hi else v)"

text \<open>
  \<^verbatim>\<open>int DriveTrain::applyDeadband(int input, int deadband)\<close>: the negation of the
  threshold is a machine negation.
\<close>

definition applyDeadband :: "cint \<Rightarrow> cint \<Rightarrow> cint" where
  "applyDeadband input deadband =
     (if (- deadband) <s input \<and> input <s deadband then 0 else input)"

text \<open>
  \<^verbatim>\<open>void DriveTrain::calculateTankDrive(int, int, int& leftPower, int& rightPower)\<close>:
  the two output parameters are returned as the pair \<open>(leftPower, rightPower)\<close>.
\<close>

definition calculateTankDrive :: "cint \<Rightarrow> cint \<Rightarrow> cint \<times> cint" where
  "calculateTankDrive leftStickInput rightStickInput =
     (let leftPower = clamp leftStickInput (- 100) 100;
          rightPower = clamp rightStickInput (- 100) 100
      in (leftPower, rightPower))"

text \<open>
  \<^verbatim>\<open>void DriveTrain::calculateArcadeDrive(int, int, int& leftPower, int& rightPower)\<close>:
  the sum and the difference are stored first, each is clamped afterwards.
\<close>

definition calculateArcadeDrive :: "cint \<Rightarrow> cint \<Rightarrow> cint \<times> cint" where
  "calculateArcadeDrive forwardInput turnInput =
     (let leftPower0 = forwardInput + turnInput;
          rightPower0 = forwardInput - turnInput;
          leftPower = clamp leftPower0 (- 100) 100;
          rightPower = clamp rightPower0 (- 100) 100
      in (leftPower, rightPower))"

section \<open>IntakeController\<close>

definition IntakeController_clampPowerLevel :: "cint \<Rightarrow> cint" where
  "IntakeController_clampPowerLevel powerLevel =
     (if powerLevel <s 0 then 0 else if 100 <s powerLevel then 100 else powerLevel)"

definition calculateIntakePower :: "MotorState \<Rightarrow> cint \<Rightarrow> cint" where
  "calculateIntakePower state powerLevel =
     (if state = STOP then 0
      else let clampedPower = IntakeController_clampPowerLevel powerLevel
           in if state = FORWARD then clampedPower
              else if state = REVERSE then - clampedPower
              else 0)"

definition IntakeController_calculateRampPower :: "MotorState \<Rightarrow> cint \<Rightarrow> cint" where
  "IntakeController_calculateRampPower state powerLevel =
     (if state = STOP then 0
      else let clampedPower = IntakeController_clampPowerLevel powerLevel
           in if state = FORWARD then clampedPower
              else if state = REVERSE then - clampedPower
              else 0)"

section \<open>RampController\<close>

definition RampController_clampPowerLevel :: "cint \<Rightarrow> cint" where
  "RampController_clampPowerLevel powerLevel =
     (if powerLevel <s 0 then 0 else if 100 <s powerLevel then 100 else powerLevel)"

text \<open>
  \<^verbatim>\<open>int RampController::calculateRampPower(MotorState, bool useFullPower, int)\<close>: in
  full-power mode a state that is neither FORWARD nor REVERSE falls through to the
  variable-power code, as in the source.
\<close>

definition RampController_calculateRampPower :: "MotorState \<Rightarrow> bool \<Rightarrow> cint \<Rightarrow> cint" where
  "RampController_calculateRampPower state useFullPower powerLevel =
     (if state = STOP then 0
      else if useFullPower \<and> state = FORWARD then 100
      else if useFullPower \<and> state = REVERSE then - 100
      else let clampedPower = RampController_clampPowerLevel powerLevel
           in if state = FORWARD then clampedPower
              else if state = REVERSE then - clampedPower
              else 0)"

section \<open>PneumaticController\<close>

definition calculatePistonState :: "HeightPosition \<Rightarrow> bool" where
  "calculatePistonState position = (position = HIGH)"

definition getOppositePosition :: "HeightPosition \<Rightarrow> HeightPosition" where
  "getOppositePosition position = (if position = LOW then HIGH else LOW)"

definition togglePosition :: "HeightPosition \<Rightarrow> HeightPosition" where
  "togglePosition currentPosition = getOppositePosition currentPosition"

section \<open>Reading the machine integers\<close>

text \<open>
  The statements below speak about the signed values of the results, so the clamps and
  the three arithmetic operations of the source are first related to integer arithmetic.
  Addition, subtraction and negation agree with the integers exactly when the exact
  result is representable.
\<close>

lemma sint_clamp_100: "sint (clamp v (- 100) 100) = max (- 100) (min 100 (sint v))"
  by (simp add: clamp_def word_sless_alt)

lemma sint_add_in_range:
  fixes a b :: cint
  assumes "- (2 ^ 31) \<le> sint a + sint b" and "sint a + sint b < 2 ^ 31"
  shows "sint (a + b) = sint a + sint b"
  using assms by (simp add: sint_word_ariths signed_take_bit_int_eq_self)

lemma sint_diff_in_range:
  fixes a b :: cint
  assumes "- (2 ^ 31) \<le> sint a - sint b" and "sint a - sint b < 2 ^ 31"
  shows "sint (a - b) = sint a - sint b"
  using assms by (simp add: sint_word_ariths signed_take_bit_int_eq_self)

lemma sint_minus_in_range:
  fixes a :: cint
  assumes "- (2 ^ 31) < sint a"
  shows "sint (- a) = - sint a"
proof -
  have "sint a < 2 ^ 31" using sint_lt [of a] by simp
  with assms show ?thesis
    by (simp add: sint_word_ariths signed_take_bit_int_eq_self)
qed

lemma sint_Intake_clampPowerLevel:
  "sint (IntakeController_clampPowerLevel l) = max 0 (min 100 (sint l))"
  by (simp add: IntakeController_clampPowerLevel_def word_sless_alt)

lemma sint_Ramp_clampPowerLevel:
  "sint (RampController_clampPowerLevel l) = max 0 (min 100 (sint l))"
  by (simp add: RampController_clampPowerLevel_def word_sless_alt)

lemma sint_minus_Intake_clampPowerLevel:
  "sint (- IntakeController_clampPowerLevel l) = - max 0 (min 100 (sint l))"
proof -
  have "- (2 ^ 31) < sint (IntakeController_clampPowerLevel l)"
    by (simp add: sint_Intake_clampPowerLevel)
  then show ?thesis
    by (simp only: sint_minus_in_range sint_Intake_clampPowerLevel)
qed

lemma sint_minus_Ramp_clampPowerLevel:
  "sint (- RampController_clampPowerLevel l) = - max 0 (min 100 (sint l))"
proof -
  have "- (2 ^ 31) < sint (RampController_clampPowerLevel l)"
    by (simp add: sint_Ramp_clampPowerLevel)
  then show ?thesis
    by (simp only: sint_minus_in_range sint_Ramp_clampPowerLevel)
qed

text \<open>
  The deadband test of the source negates the threshold in machine arithmetic. For the
  one threshold whose negation is not representable (the least \<^verbatim>\<open>int\<close>) the wrapped
  negation is the threshold itself, and the test fails for every input, as the exact
  test does.
\<close>

lemma deadband_test_exact:
  fixes input d :: cint
  shows "(- d) <s input \<and> input <s d \<longleftrightarrow> - sint d < sint input \<and> sint input < sint d"
proof (cases "- (2 ^ 31) < sint d")
  case True
  then show ?thesis by (simp add: word_sless_alt sint_minus_in_range)
next
  case False
  moreover have "- (2 ^ 31) \<le> sint d" using sint_ge [of d] by simp
  ultimately have d: "sint d = - (2 ^ 31)" by simp
  have "- (2 ^ 31) \<le> sint input" using sint_ge [of input] by simp
  with d show ?thesis by (simp add: word_sless_alt)
qed

section \<open>Discrete motor-state power mapping\<close>

text \<open>
  C2. The dual-mode mapping \<^verbatim>\<open>RampController::calculateRampPower\<close>: for every flag and
  every level the result is 0 when the state is STOP; in full-power mode it is exactly
  100 for FORWARD and -100 for REVERSE whatever the level; in variable-power mode it is
  the level clamped to [0, 100], positive for FORWARD and negated for REVERSE.
\<close>

theorem RampController_calculateRampPower_spec:
  "RampController_calculateRampPower STOP useFullPower level = 0
   \<and> RampController_calculateRampPower FORWARD True level = 100
   \<and> RampController_calculateRampPower REVERSE True level = - 100
   \<and> sint (RampController_calculateRampPower FORWARD False level)
       = max 0 (min 100 (sint level))
   \<and> sint (RampController_calculateRampPower REVERSE False level)
       = - max 0 (min 100 (sint level))"
  by (simp add: RampController_calculateRampPower_def sint_Ramp_clampPowerLevel
      sint_minus_Ramp_clampPowerLevel)

text \<open>
  C3. The variable-power mapping \<^verbatim>\<open>IntakeController::calculateIntakePower\<close>: for every
  level, negative and above 100 included, the result is 0 when the state is STOP, the
  level clamped to [0, 100] when it is FORWARD, and the negation of that clamped level
  when it is REVERSE.
\<close>

theorem calculateIntakePower_spec:
  "calculateIntakePower STOP level = 0
   \<and> sint (calculateIntakePower FORWARD level) = max 0 (min 100 (sint level))
   \<and> sint (calculateIntakePower REVERSE level) = - max 0 (min 100 (sint level))"
  by (simp add: calculateIntakePower_def sint_Intake_clampPowerLevel
      sint_minus_Intake_clampPowerLevel)

text \<open>
  C7. The intake-style and the ramp-style variable-power computations of
  \<^verbatim>\<open>IntakeController\<close> are the same function of state and level.
\<close>

theorem calculateIntakePower_eq_calculateRampPower:
  "calculateIntakePower state level = IntakeController_calculateRampPower state level"
  by (simp add: calculateIntakePower_def IntakeController_calculateRampPower_def)

section \<open>Deadband\<close>

text \<open>
  C4. For every input and every threshold d, \<^verbatim>\<open>applyDeadband\<close> returns 0 when
  -d < input < d holds strictly (over the integers) and the input unchanged otherwise;
  an input equal to d or to -d is returned unchanged.
\<close>

theorem applyDeadband_spec:
  "applyDeadband input d
     = (if - sint d < sint input \<and> sint input < sint d then 0 else input)
   \<and> applyDeadband d d = d
   \<and> applyDeadband (- d) d = - d"
  by (simp add: applyDeadband_def deadband_test_exact)

text \<open>
  C10. For every input and every threshold, \<^verbatim>\<open>applyDeadband\<close> returns 0 or the input
  itself and nothing else; so an input in [-100, 100] gives a result in [-100, 100],
  and for a threshold that is zero or negative the function is the identity.
\<close>

theorem applyDeadband_zero_or_input:
  "(applyDeadband input d = 0 \<or> applyDeadband input d = input)
   \<and> (- 100 \<le> sint input \<and> sint input \<le> 100 \<longrightarrow>
        - 100 \<le> sint (applyDeadband input d) \<and> sint (applyDeadband input d) \<le> 100)
   \<and> (sint d \<le> 0 \<longrightarrow> applyDeadband input d = input)"
  by (auto simp add: applyDeadband_def deadband_test_exact)

theorem applyDeadband_zero_or_input_witness:
  "applyDeadband 50 (- 3) = 50
   \<and> - 100 \<le> sint (applyDeadband 50 (- 3)) \<and> sint (applyDeadband 50 (- 3)) \<le> 100
   \<and> - 100 \<le> sint (applyDeadband 3 5) \<and> sint (applyDeadband 3 5) \<le> 100"
  using applyDeadband_zero_or_input [of 50 "- 3"] applyDeadband_zero_or_input [of 3 5]
  by simp

section \<open>Drive mixing\<close>

text \<open>
  C6. \<^verbatim>\<open>calculateTankDrive\<close> maps each side on its own: an output equals its own stick
  input when that input lies in [-100, 100], is 100 when the input is above 100 and -100
  when it is below -100, and does not depend on the other stick.
\<close>

theorem calculateTankDrive_spec:
  "(- 100 \<le> sint leftStick \<and> sint leftStick \<le> 100 \<longrightarrow>
      fst (calculateTankDrive leftStick rightStick) = leftStick)
   \<and> (100 < sint leftStick \<longrightarrow> fst (calculateTankDrive leftStick rightStick) = 100)
   \<and> (sint leftStick < - 100 \<longrightarrow> fst (calculateTankDrive leftStick rightStick) = - 100)
   \<and> (- 100 \<le> sint rightStick \<and> sint rightStick \<le> 100 \<longrightarrow>
      snd (calculateTankDrive leftStick rightStick) = rightStick)
   \<and> (100 < sint rightStick \<longrightarrow> snd (calculateTankDrive leftStick rightStick) = 100)
   \<and> (sint rightStick < - 100 \<longrightarrow> snd (calculateTankDrive leftStick rightStick) = - 100)
   \<and> fst (calculateTankDrive leftStick rightStick)
       = fst (calculateTankDrive leftStick otherRight)
   \<and> snd (calculateTankDrive leftStick rightStick)
       = snd (calculateTankDrive otherLeft rightStick)"
  by (simp add: calculateTankDrive_def Let_def clamp_def word_sless_alt)

theorem calculateTankDrive_spec_witness:
  "calculateTankDrive 50 150 = (50, 100)
   \<and> calculateTankDrive (- 150) (- 50) = (- 100, - 50)
   \<and> calculateTankDrive 101 (- 101) = (100, - 100)"
  using calculateTankDrive_spec [of 50 150] calculateTankDrive_spec [of "- 150" "- 50"]
    calculateTankDrive_spec [of 101 "- 101"]
  by (simp add: prod_eq_iff)

text \<open>
  C1. \<^verbatim>\<open>calculateArcadeDrive\<close> clamps after mixing, each side on its own: whenever the
  exact sum forward + turn is representable as a 32-bit \<^verbatim>\<open>int\<close>, the left power is
  that sum clamped to [-100, 100], and whenever the exact difference forward - turn is
  representable, the right power is that difference clamped to [-100, 100]. Inputs in
  the stick range [-100, 100] always satisfy both conditions.
\<close>

theorem calculateArcadeDrive_spec:
  "(- (2 ^ 31) \<le> sint forward + sint turn \<and> sint forward + sint turn < 2 ^ 31 \<longrightarrow>
      sint (fst (calculateArcadeDrive forward turn))
        = max (- 100) (min 100 (sint forward + sint turn)))
   \<and> (- (2 ^ 31) \<le> sint forward - sint turn \<and> sint forward - sint turn < 2 ^ 31 \<longrightarrow>
      sint (snd (calculateArcadeDrive forward turn))
        = max (- 100) (min 100 (sint forward - sint turn)))"
proof (intro conjI impI)
  assume "- (2 ^ 31) \<le> sint forward + sint turn \<and> sint forward + sint turn < 2 ^ 31"
  then have "sint (forward + turn) = sint forward + sint turn"
    by (simp add: sint_add_in_range)
  then show "sint (fst (calculateArcadeDrive forward turn))
      = max (- 100) (min 100 (sint forward + sint turn))"
    by (simp add: calculateArcadeDrive_def Let_def sint_clamp_100)
next
  assume "- (2 ^ 31) \<le> sint forward - sint turn \<and> sint forward - sint turn < 2 ^ 31"
  then have "sint (forward - turn) = sint forward - sint turn"
    by (simp add: sint_diff_in_range)
  then show "sint (snd (calculateArcadeDrive forward turn))
      = max (- 100) (min 100 (sint forward - sint turn))"
    by (simp add: calculateArcadeDrive_def Let_def sint_clamp_100)
qed

theorem calculateArcadeDrive_spec_witness:
  "sint (fst (calculateArcadeDrive 80 50)) = 100
   \<and> sint (snd (calculateArcadeDrive 80 50)) = 30
   \<and> sint (fst (calculateArcadeDrive 50 (- 25))) = 25
   \<and> sint (snd (calculateArcadeDrive 50 (- 25))) = 75"
  using calculateArcadeDrive_spec [of 80 50] calculateArcadeDrive_spec [of 50 "- 25"]
  by simp

text \<open>
  Without the condition the statement fails: the sum is formed in \<^verbatim>\<open>int\<close> before it
  is clamped. For forward = 2147483647 and turn = 1 the exact sum is 2147483648, whose
  clamp is 100, while the machine sum wraps to the least \<^verbatim>\<open>int\<close> and the left power
  is -100.
\<close>

theorem calculateArcadeDrive_overflow_counterexample:
  "sint (fst (calculateArcadeDrive 2147483647 1))
     \<noteq> max (- 100) (min 100 (sint (2147483647 :: cint) + sint (1 :: cint)))
   \<and> sint (fst (calculateArcadeDrive 2147483647 1)) = - 100
   \<and> max (- 100) (min 100 (sint (2147483647 :: cint) + sint (1 :: cint))) = 100"
  by (simp add: calculateArcadeDrive_def clamp_def word_sless_alt)

text \<open>
  C5. Every motor power produced by the mixing and mapping functions lies in
  [-100, 100]: both outputs of \<^verbatim>\<open>calculateTankDrive\<close> and of
  \<^verbatim>\<open>calculateArcadeDrive\<close> for all inputs, and the results of the variable-power
  mappings and of the dual-mode mapping for every state, flag and level.
\<close>

theorem motor_power_in_range:
  "- 100 \<le> sint (fst (calculateTankDrive leftStick rightStick))
   \<and> sint (fst (calculateTankDrive leftStick rightStick)) \<le> 100
   \<and> - 100 \<le> sint (snd (calculateTankDrive leftStick rightStick))
   \<and> sint (snd (calculateTankDrive leftStick rightStick)) \<le> 100
   \<and> - 100 \<le> sint (fst (calculateArcadeDrive forward turn))
   \<and> sint (fst (calculateArcadeDrive forward turn)) \<le> 100
   \<and> - 100 \<le> sint (snd (calculateArcadeDrive forward turn))
   \<and> sint (snd (calculateArcadeDrive forward turn)) \<le> 100
   \<and> - 100 \<le> sint (calculateIntakePower state level)
   \<and> sint (calculateIntakePower state level) \<le> 100
   \<and> - 100 \<le> sint (IntakeController_calculateRampPower state level)
   \<and> sint (IntakeController_calculateRampPower state level) \<le> 100
   \<and> - 100 \<le> sint (RampController_calculateRampPower state useFullPower level)
   \<and> sint (RampController_calculateRampPower state useFullPower level) \<le> 100"
proof -
  have tank: "- 100 \<le> sint (fst (calculateTankDrive leftStick rightStick))"
    "sint (fst (calculateTankDrive leftStick rightStick)) \<le> 100"
    "- 100 \<le> sint (snd (calculateTankDrive leftStick rightStick))"
    "sint (snd (calculateTankDrive leftStick rightStick)) \<le> 100"
    by (simp_all add: calculateTankDrive_def Let_def sint_clamp_100)
  have arcade: "- 100 \<le> sint (fst (calculateArcadeDrive forward turn))"
    "sint (fst (calculateArcadeDrive forward turn)) \<le> 100"
    "- 100 \<le> sint (snd (calculateArcadeDrive forward turn))"
    "sint (snd (calculateArcadeDrive forward turn)) \<le> 100"
    by (simp_all add: calculateArcadeDrive_def Let_def sint_clamp_100)
  have intake: "- 100 \<le> sint (calculateIntakePower state level)"
    "sint (calculateIntakePower state level) \<le> 100"
    by (cases state; simp add: calculateIntakePower_def sint_Intake_clampPowerLevel
        sint_minus_Intake_clampPowerLevel)+
  have ramp: "- 100 \<le> sint (IntakeController_calculateRampPower state level)"
    "sint (IntakeController_calculateRampPower state level) \<le> 100"
    by (cases state; simp add: IntakeController_calculateRampPower_def
        sint_Intake_clampPowerLevel sint_minus_Intake_clampPowerLevel)+
  have full: "- 100 \<le> sint (RampController_calculateRampPower state useFullPower level)"
    "sint (RampController_calculateRampPower state useFullPower level) \<le> 100"
    by (cases state; cases useFullPower; simp add: RampController_calculateRampPower_def
        sint_Ramp_clampPowerLevel sint_minus_Ramp_clampPowerLevel)+
  from tank arcade intake ramp full show ?thesis by blast
qed

section \<open>Binary actuator position\<close>

text \<open>
  C8. \<^verbatim>\<open>togglePosition\<close> is an involution on the two positions: toggling twice gives
  the starting position back, LOW (retracted) toggles to HIGH (extended) and HIGH to LOW,
  and toggling is \<^verbatim>\<open>getOppositePosition\<close>.
\<close>

theorem togglePosition_involution:
  "togglePosition (togglePosition p) = p
   \<and> togglePosition LOW = HIGH
   \<and> togglePosition HIGH = LOW
   \<and> togglePosition p = getOppositePosition p"
  by (cases p) (simp_all add: togglePosition_def getOppositePosition_def)

text \<open>
  C9. \<^verbatim>\<open>calculatePistonState\<close> is true exactly for HIGH (extended) and false exactly
  for LOW (retracted).
\<close>

theorem calculatePistonState_spec:
  "(calculatePistonState p \<longleftrightarrow> p = HIGH)
   \<and> (\<not> calculatePistonState p \<longleftrightarrow> p = LOW)
   \<and> calculatePistonState HIGH
   \<and> \<not> calculatePistonState LOW"
  by (cases p) (simp_all add: calculatePistonState_def)

end
